theory Spec2Isabelle
  imports Main
begin

section \<open>JavaScript values\<close>

text \<open>
  The tokens of \<open>src/lib/api-client.ts\<close> come out of \<open>response.data\<close> and out of the
  cookie jar, both typed \<open>any\<close>. The code tests them for truthiness, puts them into a
  template literal, passes them as an argument that has a default, and stores them.
  The model has \<open>undefined\<close>, \<open>null\<close>, booleans and strings as they are, and any other
  value (a number, an object) as \<open>JOther\<close>, by its truthiness and by the string a
  template literal makes of it.
\<close>

datatype jsval = JUndefined | JNull | JBool bool | JStr string | JOther bool string

text \<open>The test \<open>if (v)\<close> and the operand of \<open>!v\<close>.\<close>

fun truthy :: "jsval \<Rightarrow> bool" where
  "truthy JUndefined = False"
| "truthy JNull = False"
| "truthy (JBool b) = b"
| "truthy (JStr s) = (s \<noteq> [])"
| "truthy (JOther b s) = b"

text \<open>The string a template literal \<open>`${v}`\<close> puts in place of \<open>v\<close>.\<close>

fun template :: "jsval \<Rightarrow> string" where
  "template JUndefined = ''undefined''"
| "template JNull = ''null''"
| "template (JBool b) = (if b then ''true'' else ''false'')"
| "template (JStr s) = s"
| "template (JOther b s) = s"

text \<open>\<open>`Bearer ${token}`\<close>, lines 155, 182 and 193.\<close>

definition bearer :: "jsval \<Rightarrow> string" where
  "bearer token = ''Bearer '' @ template token"


section \<open>The cookie jar\<close>

text \<open>
  \<open>universal-cookie\<close> is a collaborator of the client, not part of it. The model takes
  what the client relies on: a jar keyed by name, \<open>get\<close> answering \<open>undefined\<close> for a
  name that is not there, \<open>set\<close> writing the value it is handed under the default
  options merged with the call's own, and \<open>remove\<close> deleting the entry. What the
  library does to a value that is not a string is not modelled: the jar records the
  value handed to \<open>set\<close>.
\<close>

record CookieSetOptions =
  path :: string
  secure :: bool
  domain :: "string option"
  maxAge :: "nat option"

type_synonym jar = "string \<Rightarrow> (jsval \<times> CookieSetOptions) option"

record Cookies =
  entries :: jar
  defaultSetOptions :: CookieSetOptions

definition cookies_get :: "Cookies \<Rightarrow> string \<Rightarrow> jsval" where
  "cookies_get ck name = (case entries ck name of None \<Rightarrow> JUndefined | Some (v, _) \<Rightarrow> v)"

definition cookies_set :: "Cookies \<Rightarrow> string \<Rightarrow> jsval \<Rightarrow> nat option \<Rightarrow> Cookies" where
  "cookies_set ck name v age =
     ck\<lparr>entries := (entries ck)(name \<mapsto>
        (v, (case age of None \<Rightarrow> defaultSetOptions ck
                       | Some a \<Rightarrow> (defaultSetOptions ck)\<lparr>maxAge := Some a\<rparr>)))\<rparr>"

definition cookies_remove :: "Cookies \<Rightarrow> string \<Rightarrow> Cookies" where
  "cookies_remove ck name = ck\<lparr>entries := (entries ck)(name := None)\<rparr>"


section \<open>Storage scope options (lines 18 to 28)\<close>

text \<open>
  \<open>window\<close> is \<open>None\<close> where \<open>typeof window\<close> is \<open>"undefined"\<close> (server side) and
  otherwise holds the two fields of \<open>document.location\<close> that the code reads.
  \<open>getDomain\<close> of \<open>tldts\<close> is a parameter: it answers a domain or \<open>null\<close>.
\<close>

record Location =
  href :: string
  protocol :: string

definition getCookieSetOptions ::
  "(string \<Rightarrow> string option) \<Rightarrow> Location option \<Rightarrow> CookieSetOptions" where
  "getCookieSetOptions getDomain window =
     (let isCSR = (window \<noteq> None);
          d = (case window of Some loc \<Rightarrow> getDomain (href loc) | None \<Rightarrow> None)
      in \<lparr> path = ''/'',
           secure = (isCSR \<and> (case window of Some loc \<Rightarrow> protocol loc = ''https''
                                             | None \<Rightarrow> False)),
           domain = (case d of Some n \<Rightarrow> (if n \<noteq> [] then Some n else None)
                             | None \<Rightarrow> None),
           maxAge = None \<rparr>)"


section \<open>The client object (lines 30 to 59)\<close>

record ApiClientProps =
  env :: string
  apiRefreshUrl :: string
  tokenNamespace :: "string option"
  apiAuthBaseUrl :: string
  apiBBaseUrl :: "string option"

text \<open>
  A request configuration: the fields the interceptors read or write. \<open>retry\<close> is the
  source's \<open>_retry\<close>, absent (falsy) until the refresher sets it.
\<close>

record request =
  url :: string
  Authorization :: "string option"
  retry :: bool

text \<open>
  The instance fields. \<open>refreshUrl\<close> is the private field \<open>apiRefreshUrl\<close>; the two
  transport instances are kept by their base URLs. An entry of \<open>failedQueue\<close> is the
  \<open>resolve\<close>/\<open>reject\<close> pair of the promise made at line 178, kept here as the request
  whose continuation (lines 181 to 185) waits on it.
\<close>

record ApiClient =
  refreshUrl :: string
  cookies :: Cookies
  ACCESS_TOKEN_KEY :: string
  REFRESH_TOKEN_KEY :: string
  variantAuth :: string
  variantB :: "string option"
  isRefreshing :: bool
  failedQueue :: "request list"

definition tokenPrefix :: "ApiClientProps \<Rightarrow> string" where
  "tokenPrefix props =
     (case tokenNamespace props of None \<Rightarrow> ''putty'' | Some n \<Rightarrow> n) @ ''_''"

definition envSuffix :: "ApiClientProps \<Rightarrow> string" where
  "envSuffix props = (if env props = ''production'' then [] else ''_'' @ env props)"

text \<open>
  The constructor. \<open>getDomain\<close> and \<open>window\<close> are the environment read by
  \<open>getCookieSetOptions\<close>; \<open>initial\<close> is the jar the page already has.
\<close>

definition new_ApiClient ::
  "(string \<Rightarrow> string option) \<Rightarrow> Location option \<Rightarrow> jar \<Rightarrow> ApiClientProps \<Rightarrow> ApiClient" where
  "new_ApiClient getDomain window initial props =
     \<lparr> refreshUrl = apiRefreshUrl props,
       cookies = \<lparr> entries = initial,
                   defaultSetOptions = getCookieSetOptions getDomain window \<rparr>,
       ACCESS_TOKEN_KEY = tokenPrefix props @ ''accessToken'' @ envSuffix props,
       REFRESH_TOKEN_KEY = tokenPrefix props @ ''refreshToken'' @ envSuffix props,
       variantAuth = apiAuthBaseUrl props,
       variantB = (case apiBBaseUrl props of
                     Some b \<Rightarrow> (if b \<noteq> [] then Some b else None)
                   | None \<Rightarrow> None),
       isRefreshing = False,
       failedQueue = [] \<rparr>"


section \<open>Token accessors (lines 61 to 85)\<close>

definition getAccessToken :: "ApiClient \<Rightarrow> jsval" where
  "getAccessToken c = cookies_get (cookies c) (ACCESS_TOKEN_KEY c)"

definition getRefreshToken :: "ApiClient \<Rightarrow> jsval" where
  "getRefreshToken c = cookies_get (cookies c) (REFRESH_TOKEN_KEY c)"

definition setAccessToken :: "ApiClient \<Rightarrow> jsval \<Rightarrow> ApiClient" where
  "setAccessToken c token =
     c\<lparr>cookies := cookies_set (cookies c) (ACCESS_TOKEN_KEY c) token None\<rparr>"

definition setRefreshToken :: "ApiClient \<Rightarrow> jsval \<Rightarrow> ApiClient" where
  "setRefreshToken c token =
     c\<lparr>cookies := cookies_set (cookies c) (REFRESH_TOKEN_KEY c) token (Some (60 * 60 * 24 * 7))\<rparr>"

definition clearTokens :: "ApiClient \<Rightarrow> ApiClient" where
  "clearTokens c =
     c\<lparr>cookies := cookies_remove (cookies_remove (cookies c) (ACCESS_TOKEN_KEY c))
                                  (REFRESH_TOKEN_KEY c)\<rparr>"


section \<open>Errors, promises and the refresh response\<close>

text \<open>
  What the code throws or rejects with: an \<open>AxiosError\<close> with \<open>response?.status\<close> and
  \<open>config\<close>, the \<open>Error\<close> of line 109 with its message, and the \<open>TypeError\<close> that
  reading a property of \<open>null\<close> or \<open>undefined\<close> raises (line 118). Each is an object,
  hence truthy.
\<close>

datatype error = AxiosError "nat option" request | Error string | TypeError

datatype 'a settled = Fulfilled 'a | RejectedWith error

text \<open>
  \<open>response.data\<close> of the refresh call: \<open>null\<close> or \<open>undefined\<close>, or a value whose
  properties \<open>accessToken\<close> and \<open>refreshToken\<close> can be read (\<open>JUndefined\<close> for a
  property that is not there).
\<close>

datatype response_data = Nullish | Data jsval jsval


section \<open>processQueue (lines 87 to 99)\<close>

datatype outcome = Replays request | Rejects error

text \<open>
  For each entry in order, \<open>prom.reject(error)\<close> when \<open>error\<close> is truthy, otherwise
  \<open>prom.resolve(token)\<close>; then the queue is replaced by the empty array. The promise of
  an entry continues at lines 181 to 185: resolved with \<open>token\<close> it writes the header
  and calls \<open>instance(originalRequest)\<close>; rejected, it rejects with the same reason.
\<close>

fun queued_then :: "error option \<Rightarrow> jsval \<Rightarrow> request \<Rightarrow> request \<times> outcome" where
  "queued_then (Some err) token originalRequest = (originalRequest, Rejects err)"
| "queued_then None token originalRequest =
     (originalRequest, Replays (originalRequest\<lparr>Authorization := Some (bearer token)\<rparr>))"

text \<open>
  The parameter \<open>token\<close> is declared with the default \<open>null\<close> (line 89), which
  JavaScript also takes when the argument passed is \<open>undefined\<close>.
\<close>

definition default_token :: "jsval \<Rightarrow> jsval" where
  "default_token token = (if token = JUndefined then JNull else token)"

definition processQueue ::
  "ApiClient \<Rightarrow> error option \<Rightarrow> jsval \<Rightarrow> ApiClient \<times> (request \<times> outcome) list" where
  "processQueue c err token =
     (c\<lparr>failedQueue := []\<rparr>, map (queued_then err (default_token token)) (failedQueue c))"


section \<open>handleTokenRefresh (lines 105 to 135)\<close>

text \<open>
  The function has one \<open>await\<close>, at line 114. Up to it: read the refresh token; when it
  is falsy throw, which the \<open>catch\<close> turns into \<open>clearTokens\<close> and a rejection;
  otherwise post \<open>{ refreshToken }\<close> to the refresh URL and suspend.
\<close>

datatype refresh_call = Threw error | Posted string jsval

definition handleTokenRefresh_begin :: "ApiClient \<Rightarrow> ApiClient \<times> refresh_call" where
  "handleTokenRefresh_begin c =
     (let refreshToken = getRefreshToken c in
      if \<not> truthy refreshToken
      then (clearTokens c, Threw (Error ''No refresh token available.''))
      else (c, Posted (refreshUrl c) refreshToken))"

text \<open>
  After the \<open>await\<close>: a rejected call and a \<open>TypeError\<close> at line 118 go to the \<open>catch\<close>;
  otherwise the access token is written, the refresh token is written when truthy, and
  the function returns the access token. \<open>Inl\<close> is the rejection reason.
\<close>

fun handleTokenRefresh_resume ::
  "ApiClient \<Rightarrow> response_data settled \<Rightarrow> ApiClient \<times> (error + jsval)" where
  "handleTokenRefresh_resume c (RejectedWith e) = (clearTokens c, Inl e)"
| "handleTokenRefresh_resume c (Fulfilled Nullish) = (clearTokens c, Inl TypeError)"
| "handleTokenRefresh_resume c (Fulfilled (Data newAccessToken newRefreshToken)) =
     (let c1 = setAccessToken c newAccessToken;
          c2 = (if truthy newRefreshToken then setRefreshToken c1 newRefreshToken else c1)
      in (c2, Inr newAccessToken))"


section \<open>The interceptors of createApiClient (lines 142 to 209)\<close>

text \<open>The request interceptor, lines 151 to 160.\<close>

definition requestInterceptor :: "ApiClient \<Rightarrow> request \<Rightarrow> request" where
  "requestInterceptor c config =
     (let token = getAccessToken c in
      if truthy token then config\<lparr>Authorization := Some (bearer token)\<rparr> else config)"

text \<open>
  The response interceptor's error handler, lines 165 to 205, up to its \<open>await\<close> at
  line 192. It ends in one of three ways: the returned promise rejects at once, the
  request waits in the queue, or the request has become the refresher and waits for
  \<open>handleTokenRefresh\<close>.
\<close>

datatype handled = Propagate error | Enqueued | Refresh request refresh_call

definition responseRejected ::
  "ApiClient \<Rightarrow> nat option \<Rightarrow> request \<Rightarrow> ApiClient \<times> handled" where
  "responseRejected c status originalRequest =
     (if status = Some 401 \<and> \<not> retry originalRequest then
        if url originalRequest = ''/api/auth/login''
        then (c, Propagate (AxiosError status originalRequest))
        else if isRefreshing c
        then (c\<lparr>failedQueue := failedQueue c @ [originalRequest]\<rparr>, Enqueued)
        else
          (let marked = originalRequest\<lparr>retry := True\<rparr>;
               (c', call) = handleTokenRefresh_begin (c\<lparr>isRefreshing := True\<rparr>)
           in (c', Refresh marked call))
      else (c, Propagate (AxiosError status originalRequest)))"

text \<open>
  The handler after the \<open>await\<close>, lines 192 to 201, given how \<open>handleTokenRefresh\<close>
  settled: the \<open>try\<close> body or the \<open>catch\<close>, then the \<open>finally\<close>. It yields the outcome
  of the refresher's own request and, in queue order, those of the waiting ones.
\<close>

fun refreshAwaited ::
  "ApiClient \<Rightarrow> request \<Rightarrow> error + jsval \<Rightarrow> ApiClient \<times> outcome \<times> (request \<times> outcome) list" where
  "refreshAwaited c originalRequest (Inr newAccessToken) =
     (let replayed = originalRequest\<lparr>Authorization := Some (bearer newAccessToken)\<rparr>;
          (c', waiters) = processQueue c None newAccessToken
      in (c'\<lparr>isRefreshing := False\<rparr>, Replays replayed, waiters))"
| "refreshAwaited c originalRequest (Inl refreshError) =
     (let (c', waiters) = processQueue c (Some refreshError) JNull
      in (c'\<lparr>isRefreshing := False\<rparr>, Rejects refreshError, waiters))"


section \<open>The event loop\<close>

text \<open>
  Execution is single threaded: a handler runs from one \<open>await\<close> to the next without
  interruption, and anything may happen between. An event is one such run:
  \<open>ResponseError status config\<close>, a dispatched request fails and the error handler
  starts on its \<open>AxiosError\<close>; \<open>PostSettled r\<close>, the refresh call settles and
  \<open>handleTokenRefresh\<close> resumes; \<open>RefreshAwaited\<close>, the handler of the refresher
  resumes after line 192.
  The machine is the client object and the suspended refresher, if any. One place for
  it is enough: a handler becomes the refresher only while the flag is false, and the
  flag is false only while no refresher is suspended (\<open>consistent\<close> below). An event
  that has nothing to resume leaves the machine as it is.
\<close>

datatype suspended = AwaitPost request | AwaitRefresh request "error + jsval"

record machine =
  client :: ApiClient
  refresher :: "suspended option"

datatype event =
    ResponseError "nat option" request
  | PostSettled "response_data settled"
  | RefreshAwaited

text \<open>
  What a run does to the outside: the call to the refresh endpoint with its URL and
  refresh token, the outcome of the request the handler was started for, and the
  outcome of a request that waited in the queue.
\<close>

datatype effect =
    RefreshPost string jsval
  | Origin request outcome
  | Waiter request outcome

fun started :: "machine \<Rightarrow> request \<Rightarrow> ApiClient \<times> handled \<Rightarrow> machine \<times> effect list" where
  "started m req (c', Propagate e) = (m\<lparr>client := c'\<rparr>, [Origin req (Rejects e)])"
| "started m req (c', Enqueued) = (m\<lparr>client := c'\<rparr>, [])"
| "started m req (c', Refresh marked (Threw e)) =
     (m\<lparr>client := c', refresher := Some (AwaitRefresh marked (Inl e))\<rparr>, [])"
| "started m req (c', Refresh marked (Posted u token)) =
     (m\<lparr>client := c', refresher := Some (AwaitPost marked)\<rparr>, [RefreshPost u token])"

fun step :: "machine \<Rightarrow> event \<Rightarrow> machine \<times> effect list" where
  "step m (ResponseError status req) =
     started m req (responseRejected (client m) status req)"
| "step m (PostSettled r) =
     (case refresher m of
        Some (AwaitPost req) \<Rightarrow>
          (let (c', res) = handleTokenRefresh_resume (client m) r
           in (m\<lparr>client := c', refresher := Some (AwaitRefresh req res)\<rparr>, []))
      | _ \<Rightarrow> (m, []))"
| "step m RefreshAwaited =
     (case refresher m of
        Some (AwaitRefresh req res) \<Rightarrow>
          (let (c', out, waiters) = refreshAwaited (client m) req res
           in (m\<lparr>client := c', refresher := None\<rparr>,
               Origin req out # map (\<lambda>(q, w). Waiter q w) waiters))
      | _ \<Rightarrow> (m, []))"

fun run :: "machine \<Rightarrow> event list \<Rightarrow> machine \<times> effect list" where
  "run m [] = (m, [])"
| "run m (e # es) =
     (let (m1, out1) = step m e; (m2, out2) = run m1 es in (m2, out1 @ out2))"

text \<open>The requests that enter the refresh protocol on a 401 (lines 171 to 174).\<close>

definition recoverable :: "request \<Rightarrow> bool" where
  "recoverable r = (url r \<noteq> ''/api/auth/login'' \<and> \<not> retry r)"


section \<open>Runs of the event loop\<close>

text \<open>
  \<open>handleTokenRefresh\<close> as a whole, given how its call to the refresh endpoint settles
  (the settlement is not looked at when the function throws before the call).
\<close>

definition handleTokenRefresh ::
  "ApiClient \<Rightarrow> response_data settled \<Rightarrow> ApiClient \<times> (error + jsval)" where
  "handleTokenRefresh c r =
     (case handleTokenRefresh_begin c of
        (c', Threw e) \<Rightarrow> (c', Inl e)
      | (c', Posted u token) \<Rightarrow> handleTokenRefresh_resume c' r)"

text \<open>
  No refresh is in flight: the flag is false and no handler is suspended. In the states
  a run can reach from a new client the second follows from the first (\<open>consistent\<close>
  below).
\<close>

definition idle :: "machine \<Rightarrow> bool" where
  "idle m = (\<not> isRefreshing (client m) \<and> refresher m = None)"

text \<open>
  A failed response, as its status and request. It \<open>enters\<close> the refresh protocol when
  the status is 401 and the request is recoverable; otherwise the handler \<open>passes\<close> the
  error on to the caller (lines 173 and 204).
\<close>

definition arrival :: "nat option \<times> request \<Rightarrow> event" where
  "arrival x = ResponseError (fst x) (snd x)"

definition enters :: "nat option \<times> request \<Rightarrow> bool" where
  "enters x = (fst x = Some 401 \<and> recoverable (snd x))"

definition passes :: "nat option \<times> request \<Rightarrow> effect" where
  "passes x = Origin (snd x) (Rejects (AxiosError (fst x) (snd x)))"

text \<open>
  One refresh cycle: the request \<open>r0\<close> fails with 401, the responses \<open>xs\<close> fail while
  the refresh call is out, the call settles as \<open>p\<close> (when no call was made there is
  nothing to settle and the event changes nothing), the responses \<open>ys\<close> fail before the
  refresher's handler resumes, and it resumes.
\<close>

definition cycle ::
  "request \<Rightarrow> (nat option \<times> request) list \<Rightarrow> response_data settled
     \<Rightarrow> (nat option \<times> request) list \<Rightarrow> event list" where
  "cycle r0 xs p ys =
     ResponseError (Some 401) r0 # map arrival xs @ [PostSettled p] @ map arrival ys
       @ [RefreshAwaited]"

text \<open>The three kinds of effect in a trace, each in order of occurrence.\<close>

fun posts :: "effect list \<Rightarrow> (string \<times> jsval) list" where
  "posts [] = []"
| "posts (RefreshPost u t # es) = (u, t) # posts es"
| "posts (_ # es) = posts es"

fun waiters :: "effect list \<Rightarrow> (request \<times> outcome) list" where
  "waiters [] = []"
| "waiters (Waiter q w # es) = (q, w) # waiters es"
| "waiters (_ # es) = waiters es"

fun origins :: "effect list \<Rightarrow> (request \<times> outcome) list" where
  "origins [] = []"
| "origins (Origin q w # es) = (q, w) # origins es"
| "origins (_ # es) = origins es"

text \<open>
  What a request gets from a settled refresh: the rejection reason, or a replay under
  the token. The refresher's request is settled with the result of the attempt, the
  waiting ones with \<open>drained_with\<close> of it, the result as \<open>processQueue\<close> receives it.
\<close>

definition settle :: "error + jsval \<Rightarrow> request \<Rightarrow> outcome" where
  "settle res q =
     (case res of Inl e \<Rightarrow> Rejects e
      | Inr token \<Rightarrow> Replays (q\<lparr>Authorization := Some (bearer token)\<rparr>))"

definition drained_with :: "error + jsval \<Rightarrow> error + jsval" where
  "drained_with res = (case res of Inl e \<Rightarrow> Inl e | Inr token \<Rightarrow> Inr (default_token token))"

text \<open>
  The states a run can reach from a new client: the flag is true exactly while a
  refresher is suspended, the queue is empty while none is, and the two keys differ.
\<close>

definition consistent :: "machine \<Rightarrow> bool" where
  "consistent m =
     ((isRefreshing (client m) \<longleftrightarrow> refresher m \<noteq> None)
      \<and> (\<not> isRefreshing (client m) \<longrightarrow> failedQueue (client m) = [])
      \<and> ACCESS_TOKEN_KEY (client m) \<noteq> REFRESH_TOKEN_KEY (client m))"


section \<open>Example configurations\<close>

definition staging_props :: ApiClientProps where
  "staging_props =
     \<lparr> env = ''staging'', apiRefreshUrl = ''https://auth.example.com/refresh'',
       tokenNamespace = Some ''app'', apiAuthBaseUrl = ''https://auth.example.com'',
       apiBBaseUrl = None \<rparr>"

definition production_props :: ApiClientProps where
  "production_props = staging_props\<lparr>env := ''production''\<rparr>"

definition no_domain :: "string \<Rightarrow> string option" where
  "no_domain h = None"

definition root_options :: CookieSetOptions where
  "root_options = \<lparr> path = ''/'', secure = False, domain = None, maxAge = None \<rparr>"

definition signed_in :: jar where
  "signed_in =
     [''app_accessToken_staging'' \<mapsto> (JStr ''A1'', root_options),
      ''app_refreshToken_staging'' \<mapsto> (JStr ''R1'', root_options)]"

definition signed_in_client :: ApiClient where
  "signed_in_client = new_ApiClient no_domain None signed_in staging_props"

definition signed_out_client :: ApiClient where
  "signed_out_client = new_ApiClient no_domain None Map.empty staging_props"

definition items_request :: request where
  "items_request = \<lparr> url = ''/api/items'', Authorization = Some ''Bearer A1'', retry = False \<rparr>"

definition users_request :: request where
  "users_request = \<lparr> url = ''/api/users'', Authorization = Some ''Bearer A1'', retry = False \<rparr>"

definition login_request :: request where
  "login_request = \<lparr> url = ''/api/auth/login'', Authorization = None, retry = False \<rparr>"


section \<open>Lemmas about single steps and runs\<close>

lemmas example_defs =
  staging_props_def production_props_def no_domain_def root_options_def signed_in_def
  signed_in_client_def signed_out_client_def items_request_def users_request_def
  login_request_def new_ApiClient_def tokenPrefix_def envSuffix_def getCookieSetOptions_def

lemma step_arrival_refreshing:
  assumes "isRefreshing (client m)"
  shows "step m (arrival x) =
     (if enters x
      then (m\<lparr>client := (client m)\<lparr>failedQueue := failedQueue (client m) @ [snd x]\<rparr>\<rparr>, [])
      else (m, [passes x]))"
  using assms
  by (cases x) (auto simp: arrival_def enters_def passes_def recoverable_def responseRejected_def)

lemma run_arrivals_refreshing:
  assumes "isRefreshing (client m)"
  shows "run m (map arrival xs) =
     (m\<lparr>client := (client m)\<lparr>failedQueue := failedQueue (client m) @ map snd (filter enters xs)\<rparr>\<rparr>,
      map passes (filter (\<lambda>x. \<not> enters x) xs))"
  using assms
proof (induction xs arbitrary: m)
  case Nil
  then show ?case by simp
next
  case (Cons x xs)
  show ?case
  proof (cases "enters x")
    case True
    let ?m1 = "m\<lparr>client := (client m)\<lparr>failedQueue := failedQueue (client m) @ [snd x]\<rparr>\<rparr>"
    have s: "step m (arrival x) = (?m1, [])"
      using Cons.prems True by (simp add: step_arrival_refreshing)
    have r: "isRefreshing (client ?m1)" using Cons.prems by simp
    show ?thesis
      using Cons.IH [OF r] True s by simp
  next
    case False
    have s: "step m (arrival x) = (m, [passes x])"
      using Cons.prems False by (simp add: step_arrival_refreshing)
    show ?thesis
      using Cons.IH [OF Cons.prems] False s by simp
  qed
qed

lemma run_append:
  "run m (es @ fs) =
     (let (m1, out1) = run m es; (m2, out2) = run m1 fs in (m2, out1 @ out2))"
  by (induction es arbitrary: m) (auto split: prod.splits)

lemma waiters_app: "waiters (xs @ ys) = waiters xs @ waiters ys"
  by (induction xs rule: waiters.induct) simp_all

lemma posts_app: "posts (xs @ ys) = posts xs @ posts ys"
  by (induction xs rule: posts.induct) simp_all

lemma origins_app: "origins (xs @ ys) = origins xs @ origins ys"
  by (induction xs rule: origins.induct) simp_all

lemma waiters_passes: "waiters (map passes xs) = []"
  by (induction xs) (simp_all add: passes_def)

lemma posts_passes: "posts (map passes xs) = []"
  by (induction xs) (simp_all add: passes_def)

lemma origins_passes:
  "origins (map passes xs) = map (\<lambda>x. (snd x, Rejects (AxiosError (fst x) (snd x)))) xs"
  by (induction xs) (simp_all add: passes_def)

lemma origins_Waiter: "origins (map (\<lambda>x. Waiter (g x) (f x)) xs) = []"
  by (induction xs) simp_all

lemma waiters_Waiter: "waiters (map (\<lambda>x. Waiter (g x) (f x)) xs) = map (\<lambda>x. (g x, f x)) xs"
  by (induction xs) simp_all

lemma posts_Waiter: "posts (map (\<lambda>x. Waiter (g x) (f x)) xs) = []"
  by (induction xs) simp_all

lemma begin_cases:
  "handleTokenRefresh_begin c =
     (if truthy (getRefreshToken c)
      then (c, Posted (refreshUrl c) (getRefreshToken c))
      else (clearTokens c, Threw (Error ''No refresh token available.'')))"
  by (simp add: handleTokenRefresh_begin_def Let_def)

lemma first_401:
  assumes "idle m" "recoverable r0"
  shows "step m (ResponseError (Some 401) r0) =
     (if truthy (getRefreshToken (client m))
      then (m\<lparr>client := (client m)\<lparr>isRefreshing := True\<rparr>,
              refresher := Some (AwaitPost (r0\<lparr>retry := True\<rparr>))\<rparr>,
            [RefreshPost (refreshUrl (client m)) (getRefreshToken (client m))])
      else (m\<lparr>client := (clearTokens (client m))\<lparr>isRefreshing := True\<rparr>,
              refresher := Some (AwaitRefresh (r0\<lparr>retry := True\<rparr>)
                                   (Inl (Error ''No refresh token available.'')))\<rparr>,
            []))"
  using assms
  by (simp add: idle_def recoverable_def responseRejected_def begin_cases
      getRefreshToken_def clearTokens_def)

lemma retried_401_passes:
  assumes "retry r"
  shows "step m (ResponseError (Some 401) r) = (m, [Origin r (Rejects (AxiosError (Some 401) r))])"
  using assms by (simp add: responseRejected_def)

lemma awaited:
  assumes "refresher m = Some (AwaitRefresh r res)"
  shows "step m RefreshAwaited =
     (m\<lparr>client := (client m)\<lparr>isRefreshing := False, failedQueue := []\<rparr>, refresher := None\<rparr>,
      Origin r (settle res r)
        # map (\<lambda>q. Waiter q (settle (drained_with res) q)) (failedQueue (client m)))"
  using assms
  by (cases res) (simp_all add: processQueue_def settle_def drained_with_def comp_def)

lemma resume_indep:
  "handleTokenRefresh_resume (c\<lparr>isRefreshing := b, failedQueue := q\<rparr>) r =
     ((fst (handleTokenRefresh_resume c r))\<lparr>isRefreshing := b, failedQueue := q\<rparr>,
      snd (handleTokenRefresh_resume c r))"
  by (cases "(c, r)" rule: handleTokenRefresh_resume.cases)
     (simp_all add: clearTokens_def setAccessToken_def setRefreshToken_def Let_def
        cookies_set_def cookies_remove_def)

lemma resume_fields:
  "isRefreshing (fst (handleTokenRefresh_resume c r)) = isRefreshing c"
  "failedQueue (fst (handleTokenRefresh_resume c r)) = failedQueue c"
  "ACCESS_TOKEN_KEY (fst (handleTokenRefresh_resume c r)) = ACCESS_TOKEN_KEY c"
  "REFRESH_TOKEN_KEY (fst (handleTokenRefresh_resume c r)) = REFRESH_TOKEN_KEY c"
  by (cases "(c, r)" rule: handleTokenRefresh_resume.cases;
      simp add: clearTokens_def setAccessToken_def setRefreshToken_def Let_def)+

lemma post_settled:
  assumes "refresher m = Some (AwaitPost r)"
  shows "step m (PostSettled p) =
     (m\<lparr>client := fst (handleTokenRefresh_resume (client m) p),
        refresher := Some (AwaitRefresh r (snd (handleTokenRefresh_resume (client m) p)))\<rparr>, [])"
  using assms by (simp add: case_prod_unfold Let_def)

lemma post_ignored:
  assumes "refresher m = Some (AwaitRefresh r res)"
  shows "step m (PostSettled p) = (m, [])"
  using assms by simp

text \<open>
  A whole cycle from an idle machine: the final machine, and the trace in order: the
  refresh call if one is made, the errors passed on meanwhile, the outcome of the
  refresher's request and the outcomes of the queue.
\<close>

lemma cycle_run:
  assumes i: "idle m" and r: "recoverable r0"
  shows "run m (cycle r0 xs p ys) =
     (m\<lparr>client := (fst (handleTokenRefresh (client m) p))\<lparr>isRefreshing := False, failedQueue := []\<rparr>,
        refresher := None\<rparr>,
      (if truthy (getRefreshToken (client m))
       then [RefreshPost (refreshUrl (client m)) (getRefreshToken (client m))] else [])
      @ map passes (filter (\<lambda>x. \<not> enters x) xs)
      @ map passes (filter (\<lambda>x. \<not> enters x) ys)
      @ Origin (r0\<lparr>retry := True\<rparr>)
          (settle (snd (handleTokenRefresh (client m) p)) (r0\<lparr>retry := True\<rparr>))
        # map (\<lambda>q. Waiter q (settle (drained_with (snd (handleTokenRefresh (client m) p))) q))
            (failedQueue (client m) @ map snd (filter enters xs) @ map snd (filter enters ys)))"
proof (cases "truthy (getRefreshToken (client m))")
  case True
  let ?c = "client m"
  let ?r = "r0\<lparr>retry := True\<rparr>"
  let ?m1 = "m\<lparr>client := ?c\<lparr>isRefreshing := True\<rparr>, refresher := Some (AwaitPost ?r)\<rparr>"
  let ?q2 = "failedQueue ?c @ map snd (filter enters xs)"
  let ?m2 = "m\<lparr>client := ?c\<lparr>isRefreshing := True, failedQueue := ?q2\<rparr>,
               refresher := Some (AwaitPost ?r)\<rparr>"
  let ?c3 = "fst (handleTokenRefresh_resume ?c p)"
  let ?res = "snd (handleTokenRefresh_resume ?c p)"
  let ?m3 = "m\<lparr>client := ?c3\<lparr>isRefreshing := True, failedQueue := ?q2\<rparr>,
               refresher := Some (AwaitRefresh ?r ?res)\<rparr>"
  let ?q4 = "failedQueue ?c @ map snd (filter enters xs) @ map snd (filter enters ys)"
  let ?m4 = "m\<lparr>client := ?c3\<lparr>isRefreshing := True, failedQueue := ?q4\<rparr>,
               refresher := Some (AwaitRefresh ?r ?res)\<rparr>"
  have h: "handleTokenRefresh ?c p = (?c3, ?res)"
    using True by (simp add: handleTokenRefresh_def begin_cases)
  have s1: "step m (ResponseError (Some 401) r0) =
      (?m1, [RefreshPost (refreshUrl ?c) (getRefreshToken ?c)])"
    using first_401 [OF i r] True by simp
  have s2: "run ?m1 (map arrival xs) = (?m2, map passes (filter (\<lambda>x. \<not> enters x) xs))"
    using run_arrivals_refreshing [of ?m1 xs] by simp
  have s3: "step ?m2 (PostSettled p) = (?m3, [])"
    using post_settled [of ?m2 ?r p] by (simp add: resume_indep)
  have s4: "run ?m3 (map arrival ys) = (?m4, map passes (filter (\<lambda>x. \<not> enters x) ys))"
    using run_arrivals_refreshing [of ?m3 ys] by simp
  have s5: "step ?m4 RefreshAwaited =
      (m\<lparr>client := ?c3\<lparr>isRefreshing := False, failedQueue := []\<rparr>, refresher := None\<rparr>,
       Origin ?r (settle ?res ?r) # map (\<lambda>q. Waiter q (settle (drained_with ?res) q)) ?q4)"
    using awaited [of ?m4 ?r ?res] by simp
  show ?thesis
    using True
    by (simp add: cycle_def run_append s1 s2 s3 s4 s5 h del: step.simps)
next
  case False
  let ?c = "client m"
  let ?r = "r0\<lparr>retry := True\<rparr>"
  let ?res = "Inl (Error ''No refresh token available.'') :: error + jsval"
  let ?c1 = "clearTokens ?c"
  let ?m1 = "m\<lparr>client := ?c1\<lparr>isRefreshing := True\<rparr>, refresher := Some (AwaitRefresh ?r ?res)\<rparr>"
  let ?q2 = "failedQueue ?c @ map snd (filter enters xs)"
  let ?m2 = "m\<lparr>client := ?c1\<lparr>isRefreshing := True, failedQueue := ?q2\<rparr>,
               refresher := Some (AwaitRefresh ?r ?res)\<rparr>"
  let ?q4 = "failedQueue ?c @ map snd (filter enters xs) @ map snd (filter enters ys)"
  let ?m4 = "m\<lparr>client := ?c1\<lparr>isRefreshing := True, failedQueue := ?q4\<rparr>,
               refresher := Some (AwaitRefresh ?r ?res)\<rparr>"
  have h: "handleTokenRefresh ?c p = (?c1, ?res)"
    using False by (simp add: handleTokenRefresh_def begin_cases)
  have fq: "failedQueue ?c1 = failedQueue ?c"
    by (simp add: clearTokens_def)
  have s1: "step m (ResponseError (Some 401) r0) = (?m1, [])"
    using first_401 [OF i r] False by simp
  have s2: "run ?m1 (map arrival xs) = (?m2, map passes (filter (\<lambda>x. \<not> enters x) xs))"
    using run_arrivals_refreshing [of ?m1 xs] by (simp add: fq)
  have s3: "step ?m2 (PostSettled p) = (?m2, [])"
    using post_ignored [of ?m2 ?r ?res p] by simp
  have s4: "run ?m2 (map arrival ys) = (?m4, map passes (filter (\<lambda>x. \<not> enters x) ys))"
    using run_arrivals_refreshing [of ?m2 ys] by simp
  have s5: "step ?m4 RefreshAwaited =
      (m\<lparr>client := ?c1\<lparr>isRefreshing := False, failedQueue := []\<rparr>, refresher := None\<rparr>,
       Origin ?r (settle ?res ?r) # map (\<lambda>q. Waiter q (settle (drained_with ?res) q)) ?q4)"
    using awaited [of ?m4 ?r ?res] by simp
  show ?thesis
    using False
    by (simp add: cycle_def run_append s1 s2 s3 s4 s5 h del: step.simps)
qed

lemma cycle_waiters:
  assumes "idle m" "recoverable r0"
  shows "waiters (snd (run m (cycle r0 xs p ys))) =
     map (\<lambda>q. (q, settle (drained_with (snd (handleTokenRefresh (client m) p))) q))
       (failedQueue (client m) @ map snd (filter enters (xs @ ys)))"
  by (simp add: cycle_run [OF assms] waiters_app waiters_passes waiters_Waiter comp_def)

lemma cycle_posts:
  assumes "idle m" "recoverable r0"
  shows "posts (snd (run m (cycle r0 xs p ys))) =
     (if truthy (getRefreshToken (client m))
      then [(refreshUrl (client m), getRefreshToken (client m))] else [])"
  by (simp add: cycle_run [OF assms] posts_app posts_passes posts_Waiter comp_def)

lemma cycle_origins:
  assumes "idle m" "recoverable r0"
  shows "origins (snd (run m (cycle r0 xs p ys))) =
     map (\<lambda>x. (snd x, Rejects (AxiosError (fst x) (snd x)))) (filter (\<lambda>x. \<not> enters x) (xs @ ys))
     @ [(r0\<lparr>retry := True\<rparr>,
         settle (snd (handleTokenRefresh (client m) p)) (r0\<lparr>retry := True\<rparr>))]"
  by (simp add: cycle_run [OF assms] origins_app origins_passes origins_Waiter comp_def)

lemma cycle_final:
  assumes "idle m" "recoverable r0"
  shows "fst (run m (cycle r0 xs p ys)) =
     m\<lparr>client := (fst (handleTokenRefresh (client m) p))\<lparr>isRefreshing := False, failedQueue := []\<rparr>,
       refresher := None\<rparr>"
  by (simp add: cycle_run [OF assms])

lemma cycle_idle:
  assumes "idle m" "recoverable r0"
  shows "idle (fst (run m (cycle r0 xs p ys)))"
  using assms by (simp add: cycle_final idle_def del: run.simps step.simps)

lemma all_enter:
  assumes "\<forall>r\<in>set rs. recoverable r"
  shows "filter enters (map (Pair (Some 401)) rs) = map (Pair (Some 401)) rs"
  using assms by (induction rs) (simp_all add: enters_def)

lemma none_pass:
  assumes "\<forall>r\<in>set rs. recoverable r"
  shows "filter (\<lambda>x. \<not> enters x) (map (Pair (Some 401)) rs) = []"
  using assms by (induction rs) (simp_all add: enters_def)

lemma arrivals_401:
  "map arrival (map (Pair (Some 401)) rs) = map (ResponseError (Some 401)) rs"
  by (simp add: arrival_def comp_def)

text \<open>A burst of 401 responses on an idle machine, before anything settles.\<close>

lemma burst_run:
  assumes i: "idle m" and r: "recoverable r0" and rs: "\<forall>r\<in>set rs. recoverable r"
  shows "fst (run m (ResponseError (Some 401) r0 # map (ResponseError (Some 401)) rs)) =
     m\<lparr>client := (fst (handleTokenRefresh_begin (client m)))
                   \<lparr>isRefreshing := True, failedQueue := failedQueue (client m) @ rs\<rparr>,
       refresher := Some (case snd (handleTokenRefresh_begin (client m)) of
                            Threw e \<Rightarrow> AwaitRefresh (r0\<lparr>retry := True\<rparr>) (Inl e)
                          | Posted u t \<Rightarrow> AwaitPost (r0\<lparr>retry := True\<rparr>))\<rparr>"
proof -
  obtain m1 out1 where s1: "step m (ResponseError (Some 401) r0) = (m1, out1)"
    by (cases "step m (ResponseError (Some 401) r0)")
  have m1: "m1 = m\<lparr>client := (fst (handleTokenRefresh_begin (client m)))\<lparr>isRefreshing := True\<rparr>,
       refresher := Some (case snd (handleTokenRefresh_begin (client m)) of
                            Threw e \<Rightarrow> AwaitRefresh (r0\<lparr>retry := True\<rparr>) (Inl e)
                          | Posted u t \<Rightarrow> AwaitPost (r0\<lparr>retry := True\<rparr>))\<rparr>"
    using s1 first_401 [OF i r] by (auto simp: begin_cases split: if_splits)
  have f: "failedQueue (fst (handleTokenRefresh_begin (client m))) = failedQueue (client m)"
    by (simp add: begin_cases clearTokens_def)
  have "run m1 (map arrival (map (Pair (Some 401)) rs)) =
      (m1\<lparr>client := (client m1)\<lparr>failedQueue := failedQueue (client m1) @ rs\<rparr>\<rparr>, [])"
    using run_arrivals_refreshing [of m1 "map (Pair (Some 401)) rs"] all_enter [OF rs]
      none_pass [OF rs]
    by (simp add: m1 comp_def)
  then have "run m1 (map (ResponseError (Some 401)) rs) =
      (m1\<lparr>client := (client m1)\<lparr>failedQueue := failedQueue (client m1) @ rs\<rparr>\<rparr>, [])"
    by (simp only: arrivals_401)
  then show ?thesis
    using s1 by (simp add: m1 f del: step.simps)
qed

lemma refresh_fails:
  assumes "\<not> truthy (getRefreshToken c) \<and> e = Error ''No refresh token available.''
           \<or> truthy (getRefreshToken c) \<and> (p = RejectedWith e \<or> p = Fulfilled Nullish \<and> e = TypeError)"
  shows "handleTokenRefresh c p = (clearTokens c, Inl e)"
  using assms by (auto simp: handleTokenRefresh_def begin_cases)

lemma refresh_succeeds:
  assumes "truthy (getRefreshToken c)"
  shows "handleTokenRefresh c (Fulfilled (Data a t)) =
     (if truthy t then setRefreshToken (setAccessToken c a) t else setAccessToken c a, Inr a)"
  using assms by (simp add: handleTokenRefresh_def begin_cases Let_def)

lemma cleared:
  "entries (cookies (clearTokens c)) (ACCESS_TOKEN_KEY c) = None"
  "entries (cookies (clearTokens c)) (REFRESH_TOKEN_KEY c) = None"
  by (simp_all add: clearTokens_def cookies_remove_def)

lemma stored_after_success:
  assumes "ACCESS_TOKEN_KEY c \<noteq> REFRESH_TOKEN_KEY c"
  shows "entries (cookies (if truthy t then setRefreshToken (setAccessToken c a) t
                           else setAccessToken c a)) (ACCESS_TOKEN_KEY c)
           = Some (a, defaultSetOptions (cookies c))"
    and "entries (cookies (if truthy t then setRefreshToken (setAccessToken c a) t
                           else setAccessToken c a)) (REFRESH_TOKEN_KEY c)
           = (if truthy t then Some (t, (defaultSetOptions (cookies c))\<lparr>maxAge := Some 604800\<rparr>)
              else entries (cookies c) (REFRESH_TOKEN_KEY c))"
  using assms by (simp_all add: setAccessToken_def setRefreshToken_def cookies_set_def)

lemma interceptor_after_success:
  assumes "ACCESS_TOKEN_KEY c \<noteq> REFRESH_TOKEN_KEY c"
    and "Authorization config = Some (bearer a)"
  shows "requestInterceptor
           ((if truthy t then setRefreshToken (setAccessToken c a) t else setAccessToken c a)
              \<lparr>isRefreshing := b, failedQueue := q\<rparr>) config = config"
  using assms
  by (simp add: requestInterceptor_def getAccessToken_def setAccessToken_def
      setRefreshToken_def cookies_set_def cookies_get_def Let_def)

lemma signed_in_facts:
  "idle \<lparr>client = signed_in_client, refresher = None\<rparr>"
  "recoverable items_request"
  "recoverable users_request"
  "truthy (getRefreshToken signed_in_client)"
  "getRefreshToken signed_in_client = JStr ''R1''"
  "ACCESS_TOKEN_KEY signed_in_client = ''app_accessToken_staging''"
  "REFRESH_TOKEN_KEY signed_in_client = ''app_refreshToken_staging''"
  "failedQueue signed_in_client = []"
  "refreshUrl signed_in_client = ''https://auth.example.com/refresh''"
  "defaultSetOptions (cookies signed_in_client) = root_options"
  "entries (cookies signed_in_client) ''app_refreshToken_staging'' = Some (JStr ''R1'', root_options)"
  "enters (Some 401, users_request)"
  "enters (Some 401, items_request)"
  "\<not> enters (Some 401, login_request)"
  by (simp_all add: idle_def recoverable_def enters_def getRefreshToken_def cookies_get_def
      example_defs)


section \<open>Reachable states\<close>

lemma consistent_new:
  "consistent \<lparr>client = new_ApiClient gd w j props, refresher = None\<rparr>"
  by (simp add: consistent_def new_ApiClient_def)

lemma consistent_step:
  assumes "consistent m"
  shows "consistent (fst (step m e))"
proof (cases e)
  case (ResponseError status req)
  then show ?thesis
    using assms
    by (auto simp: consistent_def responseRejected_def begin_cases clearTokens_def)
next
  case (PostSettled r)
  then show ?thesis
    using assms
    by (auto simp: consistent_def resume_fields case_prod_unfold Let_def
        split: option.splits suspended.splits)
next
  case RefreshAwaited
  show ?thesis
  proof (cases "refresher m")
    case None
    then show ?thesis using assms RefreshAwaited by simp
  next
    case (Some s)
    show ?thesis
    proof (cases s)
      case (AwaitPost r)
      then show ?thesis using assms RefreshAwaited Some by simp
    next
      case (AwaitRefresh r res)
      then show ?thesis
        using assms RefreshAwaited Some awaited [of m r res]
        by (simp add: consistent_def del: step.simps)
    qed
  qed
qed

lemma consistent_run:
  assumes "consistent m"
  shows "consistent (fst (run m es))"
  using assms
proof (induction es arbitrary: m)
  case Nil
  then show ?case by simp
next
  case (Cons e es)
  have "consistent (fst (run (fst (step m e)) es))"
    using Cons.IH [OF consistent_step [OF Cons.prems]] .
  then show ?case
    by (simp add: case_prod_unfold Let_def del: step.simps)
qed

lemma consistent_idle:
  assumes "consistent m"
  shows "idle m \<longleftrightarrow> \<not> isRefreshing (client m)"
  using assms by (auto simp: consistent_def idle_def)


section \<open>Storage keys and scope options\<close>

text \<open>
  C7. The constructor derives the access key as namespace, \<open>_accessToken\<close> and suffix,
  and the refresh key as namespace, \<open>_refreshToken\<close> and suffix, where the namespace
  defaults to \<open>putty\<close> and the suffix is empty for the environment \<open>production\<close> and
  \<open>_\<close> followed by the environment otherwise. The keys depend on the configuration
  alone, two environments under one namespace derive disjoint pairs of keys, and the
  environment \<open>staging\<close> with namespace \<open>app\<close> derives \<open>app_accessToken_staging\<close> and
  \<open>app_refreshToken_staging\<close>.
\<close>

theorem derived_keys:
  "ACCESS_TOKEN_KEY (new_ApiClient gd w j props) =
     (case tokenNamespace props of None \<Rightarrow> ''putty'' | Some n \<Rightarrow> n) @ ''_accessToken''
       @ (if env props = ''production'' then [] else ''_'' @ env props)
   \<and> REFRESH_TOKEN_KEY (new_ApiClient gd w j props) =
     (case tokenNamespace props of None \<Rightarrow> ''putty'' | Some n \<Rightarrow> n) @ ''_refreshToken''
       @ (if env props = ''production'' then [] else ''_'' @ env props)
   \<and> ACCESS_TOKEN_KEY (new_ApiClient gd' w' j' props) = ACCESS_TOKEN_KEY (new_ApiClient gd w j props)
   \<and> REFRESH_TOKEN_KEY (new_ApiClient gd' w' j' props) = REFRESH_TOKEN_KEY (new_ApiClient gd w j props)
   \<and> (tokenNamespace props = tokenNamespace props' \<and> env props \<noteq> env props' \<longrightarrow>
        {ACCESS_TOKEN_KEY (new_ApiClient gd w j props), REFRESH_TOKEN_KEY (new_ApiClient gd w j props)}
        \<inter> {ACCESS_TOKEN_KEY (new_ApiClient gd' w' j' props'),
            REFRESH_TOKEN_KEY (new_ApiClient gd' w' j' props')} = {})
   \<and> (env props = ''staging'' \<and> tokenNamespace props = Some ''app'' \<longrightarrow>
        ACCESS_TOKEN_KEY (new_ApiClient gd w j props) = ''app_accessToken_staging''
        \<and> REFRESH_TOKEN_KEY (new_ApiClient gd w j props) = ''app_refreshToken_staging'')"
  by (auto simp: new_ApiClient_def tokenPrefix_def envSuffix_def split: option.splits)

theorem derived_keys_witness:
  "env staging_props = ''staging'' \<and> tokenNamespace staging_props = Some ''app''
   \<and> tokenNamespace staging_props = tokenNamespace production_props
   \<and> env staging_props \<noteq> env production_props
   \<and> ACCESS_TOKEN_KEY (new_ApiClient no_domain None signed_in staging_props)
        = ''app_accessToken_staging''
   \<and> REFRESH_TOKEN_KEY (new_ApiClient no_domain None signed_in staging_props)
        = ''app_refreshToken_staging''
   \<and> ACCESS_TOKEN_KEY (new_ApiClient no_domain None signed_in production_props)
        = ''app_accessToken''
   \<and> REFRESH_TOKEN_KEY (new_ApiClient no_domain None signed_in production_props)
        = ''app_refreshToken''
   \<and> {''app_accessToken_staging'', ''app_refreshToken_staging''}
        \<inter> {''app_accessToken'', ''app_refreshToken''} = {}"
  using derived_keys [of no_domain None signed_in staging_props no_domain None signed_in
      production_props]
  by (simp add: example_defs)

text \<open>
  The options as the code computes them: the path is the root, the domain is the one
  \<open>getDomain\<close> answers for the page when it answers one, and \<open>secure\<close> is true exactly
  when the page reports the protocol \<open>https\<close>, without a colon.
\<close>

lemma scope_options:
  "path (getCookieSetOptions gd w) = ''/''
   \<and> secure (getCookieSetOptions gd w) = (\<exists>loc. w = Some loc \<and> protocol loc = ''https'')
   \<and> domain (getCookieSetOptions gd w) =
        (case w of None \<Rightarrow> None
         | Some loc \<Rightarrow> (case gd (href loc) of None \<Rightarrow> None
                        | Some n \<Rightarrow> if n = [] then None else Some n))"
  by (auto simp: getCookieSetOptions_def Let_def split: option.splits)

text \<open>
  C8. The claim asks for \<open>secure\<close> to be true on a page served over HTTPS. A browser
  reports the protocol of such a page as \<open>https:\<close>, with the colon, and line 24
  compares it with \<open>https\<close>: on that page the flag is false.
\<close>

theorem secure_flag_on_https_page:
  "secure (getCookieSetOptions gd
      (Some \<lparr>href = ''https://example.com/'', protocol = ''https:''\<rparr>)) = False"
  by (simp add: getCookieSetOptions_def)


section \<open>The request interceptor\<close>

text \<open>
  C9, as the claim states it, fails when the stored access token is the empty string:
  the test at line 154 is on the truthiness of the token, so no header is written,
  where the claim asks for the header \<open>Bearer\<close> followed by a space and the token.
\<close>

theorem bearer_header_counterexample:
  "getAccessToken (setAccessToken signed_out_client (JStr '''')) = JStr ''''
   \<and> Authorization (requestInterceptor (setAccessToken signed_out_client (JStr '''')) login_request)
        \<noteq> Some (''Bearer '' @ '''')"
  by (simp add: example_defs requestInterceptor_def getAccessToken_def setAccessToken_def
      cookies_get_def cookies_set_def)

text \<open>
  C9, amended. When no access token is stored, or the stored one is falsy (the empty
  string), the request leaves the interceptor with no authorization header added; when
  a truthy token is stored, the header is \<open>Bearer\<close>, a space and the token. The
  interceptor is a total function to a request configuration: it has no rejecting
  branch.
\<close>

theorem bearer_header:
  "(entries (cookies c) (ACCESS_TOKEN_KEY c) = None \<longrightarrow> requestInterceptor c config = config)
   \<and> (\<not> truthy (getAccessToken c) \<longrightarrow> requestInterceptor c config = config)
   \<and> (truthy (getAccessToken c) \<longrightarrow>
        requestInterceptor c config
          = config\<lparr>Authorization := Some (''Bearer '' @ template (getAccessToken c))\<rparr>)
   \<and> (getAccessToken c = JStr t \<and> t \<noteq> [] \<longrightarrow>
        Authorization (requestInterceptor c config) = Some (''Bearer '' @ t))"
  by (auto simp: requestInterceptor_def Let_def bearer_def getAccessToken_def cookies_get_def)

theorem bearer_header_witness:
  "entries (cookies signed_out_client) (ACCESS_TOKEN_KEY signed_out_client) = None
   \<and> \<not> truthy (getAccessToken signed_out_client)
   \<and> requestInterceptor signed_out_client login_request = login_request
   \<and> getAccessToken signed_in_client = JStr ''A1''
   \<and> truthy (getAccessToken signed_in_client)
   \<and> requestInterceptor signed_in_client login_request
       = login_request\<lparr>Authorization := Some ''Bearer A1''\<rparr>
   \<and> Authorization (requestInterceptor signed_in_client login_request) = Some ''Bearer A1''"
  using bearer_header [of signed_out_client login_request "[]"]
    bearer_header [of signed_in_client login_request "''A1''"]
  by (simp add: example_defs getAccessToken_def cookies_get_def)


section \<open>The response interceptor\<close>

text \<open>
  C6. A 401 on a request whose URL is the literal login path is passed to the caller as
  a rejection with the same error, in the same run of the handler; no refresh call is
  made, nothing is put in the queue, and the flag, the stored tokens and the suspended
  refresher stay as they are.
\<close>

theorem login_401_propagates:
  assumes "url req = ''/api/auth/login''"
  shows "step m (ResponseError (Some 401) req)
           = (m, [Origin req (Rejects (AxiosError (Some 401) req))])"
  using assms by (simp add: responseRejected_def)

theorem login_401_propagates_witness:
  "url login_request = ''/api/auth/login''
   \<and> step \<lparr>client = signed_in_client, refresher = None\<rparr> (ResponseError (Some 401) login_request)
       = (\<lparr>client = signed_in_client, refresher = None\<rparr>,
          [Origin login_request (Rejects (AxiosError (Some 401) login_request))])"
proof -
  have u: "url login_request = ''/api/auth/login''"
    by (simp add: login_request_def)
  show ?thesis
    using u login_401_propagates [OF u, of "\<lparr>client = signed_in_client, refresher = None\<rparr>"]
    by blast
qed


section \<open>The refresh attempt\<close>

text \<open>
  C2, as the claim states it, fails on a fulfilled refresh call whose body has no
  \<open>accessToken\<close>: line 118 reads \<open>undefined\<close>, line 121 hands it to the jar, the stored
  refresh token stays and the attempt resolves with \<open>undefined\<close>.
\<close>

theorem refresh_without_access_token_counterexample:
  "snd (handleTokenRefresh_resume signed_in_client (Fulfilled (Data JUndefined JUndefined)))
     = Inr JUndefined
   \<and> getRefreshToken (fst (handleTokenRefresh_resume signed_in_client
        (Fulfilled (Data JUndefined JUndefined)))) = JStr ''R1''
   \<and> entries (cookies (fst (handleTokenRefresh_resume signed_in_client
        (Fulfilled (Data JUndefined JUndefined))))) ''app_accessToken_staging''
       = Some (JUndefined, root_options)"
  by (simp add: example_defs getRefreshToken_def setAccessToken_def cookies_get_def
      cookies_set_def)

text \<open>
  C2, amended. A refresh call that rejects, or that fulfils with a body that is \<open>null\<close>
  or \<open>undefined\<close>, is a refresh failure: both stored tokens are removed, nothing else in
  the jar changes, and the attempt rejects with the reason. A fulfilled call with any
  other body is not a failure, whatever its \<open>accessToken\<close> is, also when the body has
  none (\<open>a = JUndefined\<close>): the value read is written as the access token under the
  default options, the refresh token of the body is written with the seven days of
  \<open>maxAge\<close> when it is truthy and the stored one stays otherwise, nothing else in the
  jar changes, and the attempt resolves with the value read, \<open>undefined\<close> when the body
  has no \<open>accessToken\<close>.
\<close>

theorem refresh_call_failure:
  "(r = RejectedWith e \<or> r = Fulfilled Nullish \<and> e = TypeError \<longrightarrow>
      snd (handleTokenRefresh_resume c r) = Inl e
      \<and> entries (cookies (fst (handleTokenRefresh_resume c r))) (ACCESS_TOKEN_KEY c) = None
      \<and> entries (cookies (fst (handleTokenRefresh_resume c r))) (REFRESH_TOKEN_KEY c) = None
      \<and> getAccessToken (fst (handleTokenRefresh_resume c r)) = JUndefined
      \<and> getRefreshToken (fst (handleTokenRefresh_resume c r)) = JUndefined
      \<and> (k \<noteq> ACCESS_TOKEN_KEY c \<and> k \<noteq> REFRESH_TOKEN_KEY c \<longrightarrow>
           entries (cookies (fst (handleTokenRefresh_resume c r))) k = entries (cookies c) k))
   \<and> snd (handleTokenRefresh_resume c (Fulfilled (Data a rt))) = Inr a
   \<and> snd (handleTokenRefresh_resume c (Fulfilled (Data JUndefined rt))) = Inr JUndefined
   \<and> (ACCESS_TOKEN_KEY c \<noteq> REFRESH_TOKEN_KEY c \<longrightarrow>
        entries (cookies (fst (handleTokenRefresh_resume c (Fulfilled (Data a rt)))))
            (ACCESS_TOKEN_KEY c)
          = Some (a, defaultSetOptions (cookies c))
        \<and> entries (cookies (fst (handleTokenRefresh_resume c (Fulfilled (Data JUndefined rt)))))
            (ACCESS_TOKEN_KEY c)
          = Some (JUndefined, defaultSetOptions (cookies c))
        \<and> entries (cookies (fst (handleTokenRefresh_resume c (Fulfilled (Data a rt)))))
            (REFRESH_TOKEN_KEY c)
          = (if truthy rt
             then Some (rt, (defaultSetOptions (cookies c))\<lparr>maxAge := Some 604800\<rparr>)
             else entries (cookies c) (REFRESH_TOKEN_KEY c))
        \<and> getAccessToken (fst (handleTokenRefresh_resume c (Fulfilled (Data a rt)))) = a
        \<and> getRefreshToken (fst (handleTokenRefresh_resume c (Fulfilled (Data a rt))))
          = (if truthy rt then rt else getRefreshToken c))
   \<and> (k \<noteq> ACCESS_TOKEN_KEY c \<and> k \<noteq> REFRESH_TOKEN_KEY c \<longrightarrow>
        entries (cookies (fst (handleTokenRefresh_resume c (Fulfilled (Data a rt))))) k
          = entries (cookies c) k)
   \<and> isRefreshing (fst (handleTokenRefresh_resume c (Fulfilled (Data a rt)))) = isRefreshing c
   \<and> failedQueue (fst (handleTokenRefresh_resume c (Fulfilled (Data a rt)))) = failedQueue c"
  by (auto simp: clearTokens_def cookies_remove_def getAccessToken_def getRefreshToken_def
      cookies_get_def setAccessToken_def setRefreshToken_def cookies_set_def Let_def)

theorem refresh_call_failure_witness:
  "snd (handleTokenRefresh_resume signed_in_client (Fulfilled Nullish)) = Inl TypeError
   \<and> entries (cookies (fst (handleTokenRefresh_resume signed_in_client (Fulfilled Nullish))))
        ''app_accessToken_staging'' = None
   \<and> entries (cookies (fst (handleTokenRefresh_resume signed_in_client (Fulfilled Nullish))))
        ''app_refreshToken_staging'' = None
   \<and> ''theme'' \<noteq> ACCESS_TOKEN_KEY signed_in_client
   \<and> ''theme'' \<noteq> REFRESH_TOKEN_KEY signed_in_client
   \<and> entries (cookies (fst (handleTokenRefresh_resume signed_in_client (Fulfilled Nullish))))
        ''theme'' = entries (cookies signed_in_client) ''theme''
   \<and> ACCESS_TOKEN_KEY signed_in_client \<noteq> REFRESH_TOKEN_KEY signed_in_client
   \<and> snd (handleTokenRefresh_resume signed_in_client (Fulfilled (Data JUndefined JUndefined)))
       = Inr JUndefined
   \<and> entries (cookies (fst (handleTokenRefresh_resume signed_in_client
        (Fulfilled (Data JUndefined JUndefined))))) ''app_accessToken_staging''
       = Some (JUndefined, root_options)
   \<and> entries (cookies (fst (handleTokenRefresh_resume signed_in_client
        (Fulfilled (Data JUndefined JUndefined))))) ''app_refreshToken_staging''
       = Some (JStr ''R1'', root_options)
   \<and> getRefreshToken (fst (handleTokenRefresh_resume signed_in_client
        (Fulfilled (Data JUndefined JUndefined)))) = JStr ''R1''
   \<and> snd (handleTokenRefresh_resume signed_in_client (Fulfilled (Data JUndefined (JStr ''R2''))))
       = Inr JUndefined
   \<and> entries (cookies (fst (handleTokenRefresh_resume signed_in_client
        (Fulfilled (Data JUndefined (JStr ''R2'')))))) ''app_accessToken_staging''
       = Some (JUndefined, root_options)
   \<and> entries (cookies (fst (handleTokenRefresh_resume signed_in_client
        (Fulfilled (Data JUndefined (JStr ''R2'')))))) ''app_refreshToken_staging''
       = Some (JStr ''R2'', root_options\<lparr>maxAge := Some 604800\<rparr>)
   \<and> getRefreshToken (fst (handleTokenRefresh_resume signed_in_client
        (Fulfilled (Data JUndefined (JStr ''R2''))))) = JStr ''R2''"
  using refresh_call_failure [of "Fulfilled Nullish" TypeError signed_in_client "''theme''"
      JUndefined JUndefined]
    refresh_call_failure [of "Fulfilled Nullish" TypeError signed_in_client "''theme''"
      JUndefined "JStr ''R2''"]
  by (simp add: signed_in_facts del: handleTokenRefresh_resume.simps)


section \<open>Refresh cycles\<close>

text \<open>
  C1, as the claim states it, fails when no refresh token is stored: line 109 throws
  before line 114, so the one request that fails with 401 causes no call to the refresh
  endpoint at all.
\<close>

theorem one_refresh_call_counterexample:
  "\<not> isRefreshing (client \<lparr>client = signed_out_client, refresher = None\<rparr>)
   \<and> url items_request \<noteq> ''/api/auth/login'' \<and> \<not> retry items_request
   \<and> run \<lparr>client = signed_out_client, refresher = None\<rparr>
         [ResponseError (Some 401) items_request, RefreshAwaited]
       = (\<lparr>client = signed_out_client, refresher = None\<rparr>,
          [Origin (items_request\<lparr>retry := True\<rparr>)
             (Rejects (Error ''No refresh token available.''))])
   \<and> posts (snd (run \<lparr>client = signed_out_client, refresher = None\<rparr>
         [ResponseError (Some 401) items_request, RefreshAwaited])) = []"
  by (simp add: example_defs responseRejected_def handleTokenRefresh_begin_def
      getRefreshToken_def cookies_get_def clearTokens_def cookies_remove_def
      processQueue_def fun_upd_idem)

text \<open>
  C1, amended. When the requests \<open>r0\<close> and \<open>rs\<close>, all recoverable, fail with 401 one
  after the other while no refresh is in flight, the first becomes the refresher, the
  only suspended one, and the others are appended to the queue in order. Over the cycle there is one call to
  the refresh endpoint when a truthy refresh token is stored and none otherwise, and
  every waiting request gets the outcome of that one attempt: all are replayed, or all
  are rejected with its failure.
\<close>

theorem single_flight_refresh:
  assumes "idle m" and "recoverable r0" and "\<forall>r\<in>set rs. recoverable r"
  shows "isRefreshing (client (fst (run m (map (ResponseError (Some 401)) (r0 # rs)))))
    \<and> refresher (fst (run m (map (ResponseError (Some 401)) (r0 # rs))))
         = Some (if truthy (getRefreshToken (client m))
                 then AwaitPost (r0\<lparr>retry := True\<rparr>)
                 else AwaitRefresh (r0\<lparr>retry := True\<rparr>)
                        (Inl (Error ''No refresh token available.'')))
    \<and> failedQueue (client (fst (run m (map (ResponseError (Some 401)) (r0 # rs)))))
         = failedQueue (client m) @ rs
    \<and> posts (snd (run m (cycle r0 (map (Pair (Some 401)) rs) p [])))
         = (if truthy (getRefreshToken (client m))
            then [(refreshUrl (client m), getRefreshToken (client m))] else [])
    \<and> waiters (snd (run m (cycle r0 (map (Pair (Some 401)) rs) p [])))
         = map (\<lambda>q. (q, settle (drained_with (snd (handleTokenRefresh (client m) p))) q))
             (failedQueue (client m) @ rs)"
  using assms
  by (simp add: burst_run begin_cases cycle_posts cycle_waiters all_enter comp_def
      del: run.simps step.simps)

theorem single_flight_refresh_witness:
  "idle \<lparr>client = signed_in_client, refresher = None\<rparr>
   \<and> recoverable items_request \<and> recoverable users_request
   \<and> refresher (fst (run \<lparr>client = signed_in_client, refresher = None\<rparr>
        (map (ResponseError (Some 401)) [items_request, users_request])))
       = Some (AwaitPost (items_request\<lparr>retry := True\<rparr>))
   \<and> failedQueue (client (fst (run \<lparr>client = signed_in_client, refresher = None\<rparr>
        (map (ResponseError (Some 401)) [items_request, users_request])))) = [users_request]
   \<and> posts (snd (run \<lparr>client = signed_in_client, refresher = None\<rparr>
        (cycle items_request (map (Pair (Some 401)) [users_request])
           (Fulfilled (Data (JStr ''A2'') JUndefined)) [])))
       = [(''https://auth.example.com/refresh'', JStr ''R1'')]
   \<and> waiters (snd (run \<lparr>client = signed_in_client, refresher = None\<rparr>
        (cycle items_request (map (Pair (Some 401)) [users_request])
           (Fulfilled (Data (JStr ''A2'') JUndefined)) [])))
       = [(users_request, Replays (users_request\<lparr>Authorization := Some ''Bearer A2''\<rparr>))]"
proof -
  let ?m = "\<lparr>client = signed_in_client, refresher = None\<rparr>"
  have rs: "\<forall>r\<in>set [users_request]. recoverable r"
    using signed_in_facts(3) by simp
  have h: "snd (handleTokenRefresh signed_in_client (Fulfilled (Data (JStr ''A2'') JUndefined)))
      = Inr (JStr ''A2'')"
    by (simp add: refresh_succeeds signed_in_facts)
  show ?thesis
    using single_flight_refresh [OF signed_in_facts(1,2) rs,
        of "Fulfilled (Data (JStr ''A2'') JUndefined)"]
    by (simp add: signed_in_facts h settle_def drained_with_def default_token_def bearer_def
        del: run.simps step.simps)
qed

text \<open>
  C3. When the refresh attempt fails (no refresh token stored, the call rejected, or
  the body \<open>null\<close>), both token entries are gone from the jar at the end of the cycle,
  the refresher's request rejects with the failure and so does every request that
  waited in the queue. Responses that do not enter the protocol are passed on as they
  came.
\<close>

theorem refresh_failure_clears_and_rejects:
  assumes "idle m" and "recoverable r0"
    and "\<not> truthy (getRefreshToken (client m)) \<and> e = Error ''No refresh token available.''
         \<or> truthy (getRefreshToken (client m))
             \<and> (p = RejectedWith e \<or> p = Fulfilled Nullish \<and> e = TypeError)"
  shows "entries (cookies (client (fst (run m (cycle r0 xs p ys))))) (ACCESS_TOKEN_KEY (client m)) = None
    \<and> entries (cookies (client (fst (run m (cycle r0 xs p ys))))) (REFRESH_TOKEN_KEY (client m)) = None
    \<and> origins (snd (run m (cycle r0 xs p ys)))
         = map (\<lambda>x. (snd x, Rejects (AxiosError (fst x) (snd x))))
             (filter (\<lambda>x. \<not> enters x) (xs @ ys))
           @ [(r0\<lparr>retry := True\<rparr>, Rejects e)]
    \<and> waiters (snd (run m (cycle r0 xs p ys)))
         = map (\<lambda>q. (q, Rejects e)) (failedQueue (client m) @ map snd (filter enters (xs @ ys)))"
  using assms(1,2) refresh_fails [OF assms(3)]
  by (simp add: cycle_final cycle_origins cycle_waiters cleared settle_def drained_with_def
      del: run.simps step.simps)

theorem refresh_failure_clears_and_rejects_witness:
  "idle \<lparr>client = signed_in_client, refresher = None\<rparr>
   \<and> recoverable items_request
   \<and> truthy (getRefreshToken signed_in_client)
   \<and> entries (cookies (client (fst (run \<lparr>client = signed_in_client, refresher = None\<rparr>
        (cycle items_request [(Some 401, users_request)]
           (RejectedWith (AxiosError (Some 403) login_request)) []))))) ''app_accessToken_staging''
       = None
   \<and> entries (cookies (client (fst (run \<lparr>client = signed_in_client, refresher = None\<rparr>
        (cycle items_request [(Some 401, users_request)]
           (RejectedWith (AxiosError (Some 403) login_request)) []))))) ''app_refreshToken_staging''
       = None
   \<and> origins (snd (run \<lparr>client = signed_in_client, refresher = None\<rparr>
        (cycle items_request [(Some 401, users_request)]
           (RejectedWith (AxiosError (Some 403) login_request)) [])))
       = [(items_request\<lparr>retry := True\<rparr>, Rejects (AxiosError (Some 403) login_request))]
   \<and> waiters (snd (run \<lparr>client = signed_in_client, refresher = None\<rparr>
        (cycle items_request [(Some 401, users_request)]
           (RejectedWith (AxiosError (Some 403) login_request)) [])))
       = [(users_request, Rejects (AxiosError (Some 403) login_request))]"
proof -
  let ?m = "\<lparr>client = signed_in_client, refresher = None\<rparr>"
  let ?e = "AxiosError (Some 403) login_request"
  have f: "\<not> truthy (getRefreshToken (client ?m)) \<and> ?e = Error ''No refresh token available.''
         \<or> truthy (getRefreshToken (client ?m))
             \<and> (RejectedWith ?e = RejectedWith ?e \<or> RejectedWith ?e = Fulfilled Nullish \<and> ?e = TypeError)"
    by (simp add: signed_in_facts)
  show ?thesis
    using refresh_failure_clears_and_rejects [OF signed_in_facts(1,2) f,
        of "[(Some 401, users_request)]" "[]"]
    by (simp add: signed_in_facts del: run.simps step.simps)
qed

text \<open>
  C4. A refresh call succeeds when it fulfils with a body that carries an access token.
  Then, at the end of the cycle, the access entry holds that token under the default
  options; the refresh entry holds the returned refresh token, with the seven days of
  \<open>maxAge\<close>, when the body brought a truthy one, and is unchanged otherwise (so also
  when the body brought none); the refresher's request and every request of the queue
  are replayed with the header \<open>Bearer\<close>, a space and the new token, and the request
  interceptor leaves that header as it is on the replay.
\<close>

theorem refresh_success_persists_and_replays:
  assumes "idle m" and "recoverable r0" and "truthy (getRefreshToken (client m))"
    and "ACCESS_TOKEN_KEY (client m) \<noteq> REFRESH_TOKEN_KEY (client m)"
    and "a \<noteq> JUndefined"
  shows "entries (cookies (client (fst (run m (cycle r0 xs (Fulfilled (Data a t)) ys)))))
           (ACCESS_TOKEN_KEY (client m))
         = Some (a, defaultSetOptions (cookies (client m)))
    \<and> entries (cookies (client (fst (run m (cycle r0 xs (Fulfilled (Data a t)) ys)))))
           (REFRESH_TOKEN_KEY (client m))
         = (if truthy t
            then Some (t, (defaultSetOptions (cookies (client m)))\<lparr>maxAge := Some 604800\<rparr>)
            else entries (cookies (client m)) (REFRESH_TOKEN_KEY (client m)))
    \<and> origins (snd (run m (cycle r0 xs (Fulfilled (Data a t)) ys)))
         = map (\<lambda>x. (snd x, Rejects (AxiosError (fst x) (snd x))))
             (filter (\<lambda>x. \<not> enters x) (xs @ ys))
           @ [(r0\<lparr>retry := True\<rparr>,
               Replays (r0\<lparr>retry := True, Authorization := Some (''Bearer '' @ template a)\<rparr>))]
    \<and> waiters (snd (run m (cycle r0 xs (Fulfilled (Data a t)) ys)))
         = map (\<lambda>q. (q, Replays (q\<lparr>Authorization := Some (''Bearer '' @ template a)\<rparr>)))
             (failedQueue (client m) @ map snd (filter enters (xs @ ys)))
    \<and> (Authorization config = Some (''Bearer '' @ template a) \<longrightarrow>
        requestInterceptor (client (fst (run m (cycle r0 xs (Fulfilled (Data a t)) ys)))) config
          = config)"
  using assms(1,2,4,5) refresh_succeeds [OF assms(3), of a t]
    stored_after_success [OF assms(4), where t = t and a = a]
    interceptor_after_success [OF assms(4), where config = config and a = a and t = t]
  by (simp add: cycle_final cycle_origins cycle_waiters settle_def drained_with_def
      default_token_def bearer_def del: run.simps step.simps)

theorem refresh_success_persists_and_replays_witness:
  "idle \<lparr>client = signed_in_client, refresher = None\<rparr>
   \<and> recoverable items_request
   \<and> truthy (getRefreshToken signed_in_client)
   \<and> ACCESS_TOKEN_KEY signed_in_client \<noteq> REFRESH_TOKEN_KEY signed_in_client
   \<and> JStr ''A2'' \<noteq> JUndefined
   \<and> entries (cookies (client (fst (run \<lparr>client = signed_in_client, refresher = None\<rparr>
        (cycle items_request [(Some 401, users_request)]
           (Fulfilled (Data (JStr ''A2'') JUndefined)) []))))) ''app_accessToken_staging''
       = Some (JStr ''A2'', root_options)
   \<and> entries (cookies (client (fst (run \<lparr>client = signed_in_client, refresher = None\<rparr>
        (cycle items_request [(Some 401, users_request)]
           (Fulfilled (Data (JStr ''A2'') JUndefined)) []))))) ''app_refreshToken_staging''
       = Some (JStr ''R1'', root_options)
   \<and> origins (snd (run \<lparr>client = signed_in_client, refresher = None\<rparr>
        (cycle items_request [(Some 401, users_request)]
           (Fulfilled (Data (JStr ''A2'') JUndefined)) [])))
       = [(items_request\<lparr>retry := True\<rparr>,
           Replays (items_request\<lparr>retry := True, Authorization := Some ''Bearer A2''\<rparr>))]
   \<and> waiters (snd (run \<lparr>client = signed_in_client, refresher = None\<rparr>
        (cycle items_request [(Some 401, users_request)]
           (Fulfilled (Data (JStr ''A2'') JUndefined)) [])))
       = [(users_request, Replays (users_request\<lparr>Authorization := Some ''Bearer A2''\<rparr>))]
   \<and> requestInterceptor (client (fst (run \<lparr>client = signed_in_client, refresher = None\<rparr>
        (cycle items_request [(Some 401, users_request)]
           (Fulfilled (Data (JStr ''A2'') JUndefined)) []))))
         (users_request\<lparr>Authorization := Some ''Bearer A2''\<rparr>)
       = users_request\<lparr>Authorization := Some ''Bearer A2''\<rparr>"
proof -
  let ?m = "\<lparr>client = signed_in_client, refresher = None\<rparr>"
  have k: "ACCESS_TOKEN_KEY (client ?m) \<noteq> REFRESH_TOKEN_KEY (client ?m)"
    by (simp add: signed_in_facts)
  have t: "truthy (getRefreshToken (client ?m))"
    by (simp add: signed_in_facts)
  have a: "JStr ''A2'' \<noteq> JUndefined"
    by simp
  show ?thesis
    using refresh_success_persists_and_replays [OF signed_in_facts(1,2) t k a,
        where xs = "[(Some 401, users_request)]" and ys = "[]"
          and t = JUndefined and config = "users_request\<lparr>Authorization := Some ''Bearer A2''\<rparr>"]
    by (simp add: signed_in_facts del: run.simps step.simps)
qed

text \<open>
  C5, as the claim states it, fails when the attempt resolves with \<open>undefined\<close> (a
  fulfilled call whose body has no \<open>accessToken\<close>): \<open>processQueue\<close> takes its
  parameter default, the waiting continuation is resolved with \<open>null\<close> and replays
  under \<open>Bearer null\<close>, while the new token, which the refresher's request carries, is
  \<open>undefined\<close>.
\<close>

theorem drained_with_new_token_counterexample:
  "idle \<lparr>client = signed_in_client, refresher = None\<rparr>
   \<and> recoverable items_request
   \<and> enters (Some 401, users_request)
   \<and> snd (handleTokenRefresh signed_in_client (Fulfilled (Data JUndefined JUndefined)))
       = Inr JUndefined
   \<and> origins (snd (run \<lparr>client = signed_in_client, refresher = None\<rparr>
        (cycle items_request [(Some 401, users_request)]
           (Fulfilled (Data JUndefined JUndefined)) [])))
       = [(items_request\<lparr>retry := True\<rparr>,
           Replays (items_request\<lparr>retry := True, Authorization := Some ''Bearer undefined''\<rparr>))]
   \<and> waiters (snd (run \<lparr>client = signed_in_client, refresher = None\<rparr>
        (cycle items_request [(Some 401, users_request)]
           (Fulfilled (Data JUndefined JUndefined)) [])))
       = [(users_request, Replays (users_request\<lparr>Authorization := Some ''Bearer null''\<rparr>))]"
proof -
  have h: "snd (handleTokenRefresh signed_in_client (Fulfilled (Data JUndefined JUndefined)))
      = Inr JUndefined"
    by (simp add: refresh_succeeds signed_in_facts)
  show ?thesis
    using cycle_origins [OF signed_in_facts(1,2), of "[(Some 401, users_request)]"
        "Fulfilled (Data JUndefined JUndefined)" "[]"]
      cycle_waiters [OF signed_in_facts(1,2), of "[(Some 401, users_request)]"
        "Fulfilled (Data JUndefined JUndefined)" "[]"]
    by (simp add: signed_in_facts h settle_def drained_with_def default_token_def bearer_def
        del: run.simps step.simps)
qed

text \<open>
  C5, amended. After every refresh cycle, however the attempt ends, the queue is empty,
  the flag is false and no handler is suspended, and the queue has been drained once in
  arrival order: each request that waited (those there at the start, then those that
  entered while the call was out, then those that entered before the handler resumed)
  has one outcome, in that order. All are rejected with the failure when the attempt
  rejects; all are resolved when it resolves, with the new token, or with \<open>null\<close> in
  its place when the attempt resolved with \<open>undefined\<close>.
\<close>

theorem queue_drained_once_per_cycle:
  assumes "idle m" and "recoverable r0"
  shows "failedQueue (client (fst (run m (cycle r0 xs p ys)))) = []
    \<and> \<not> isRefreshing (client (fst (run m (cycle r0 xs p ys))))
    \<and> refresher (fst (run m (cycle r0 xs p ys))) = None
    \<and> waiters (snd (run m (cycle r0 xs p ys)))
         = map (\<lambda>q. (q, case snd (handleTokenRefresh (client m) p) of
                          Inl e \<Rightarrow> Rejects e
                        | Inr token \<Rightarrow>
                            Replays (q\<lparr>Authorization := Some (''Bearer '' @ template
                              (if token = JUndefined then JNull else token))\<rparr>)))
             (failedQueue (client m) @ map snd (filter enters xs) @ map snd (filter enters ys))"
  using assms
  by (simp add: cycle_final cycle_waiters settle_def drained_with_def default_token_def
      bearer_def del: run.simps step.simps cong: sum.case_cong split: sum.split)

theorem queue_drained_once_per_cycle_witness:
  "idle \<lparr>client = signed_in_client, refresher = None\<rparr>
   \<and> recoverable items_request
   \<and> failedQueue (client (fst (run \<lparr>client = signed_in_client, refresher = None\<rparr>
        (cycle items_request [(Some 401, users_request), (Some 401, login_request)] (Fulfilled Nullish)
           [(Some 401, items_request)])))) = []
   \<and> \<not> isRefreshing (client (fst (run \<lparr>client = signed_in_client, refresher = None\<rparr>
        (cycle items_request [(Some 401, users_request), (Some 401, login_request)] (Fulfilled Nullish)
           [(Some 401, items_request)]))))
   \<and> waiters (snd (run \<lparr>client = signed_in_client, refresher = None\<rparr>
        (cycle items_request [(Some 401, users_request), (Some 401, login_request)] (Fulfilled Nullish)
           [(Some 401, items_request)])))
       = [(users_request, Rejects TypeError), (items_request, Rejects TypeError)]"
proof -
  have h: "snd (handleTokenRefresh signed_in_client (Fulfilled Nullish)) = Inl TypeError"
    using refresh_fails [of signed_in_client TypeError "Fulfilled Nullish"]
    by (simp add: signed_in_facts)
  show ?thesis
    using queue_drained_once_per_cycle [OF signed_in_facts(1,2),
        of "[(Some 401, users_request), (Some 401, login_request)]" "Fulfilled Nullish"
          "[(Some 401, items_request)]"]
    by (simp add: signed_in_facts h del: run.simps step.simps)
qed


text \<open>
  C10. A request that waited in the queue is replayed as it was queued but for the
  header: its retry mark stays unset, where the refresher's replay carries the mark. So
  a 401 on the replay of the waiting request enters the protocol again, starting a new
  refresh on an idle client and joining the queue when one is in flight, and a 401 on
  the refresher's replay is passed to the caller as it came.
\<close>

theorem queued_replay_reenters:
  assumes "idle m" and "recoverable r0" and "recoverable q"
    and "truthy (getRefreshToken (client m))"
  shows "waiters (snd (run m (cycle r0 [(Some 401, q)] (Fulfilled (Data a t)) [])))
         = map (\<lambda>x. (x, Replays (x\<lparr>Authorization := Some (bearer (default_token a))\<rparr>)))
             (failedQueue (client m) @ [q])
    \<and> origins (snd (run m (cycle r0 [(Some 401, q)] (Fulfilled (Data a t)) [])))
         = [(r0\<lparr>retry := True\<rparr>,
             Replays (r0\<lparr>retry := True, Authorization := Some (bearer a)\<rparr>))]
    \<and> \<not> retry (q\<lparr>Authorization := Some (bearer (default_token a))\<rparr>)
    \<and> retry (r0\<lparr>retry := True, Authorization := Some (bearer a)\<rparr>)
    \<and> idle (fst (run m (cycle r0 [(Some 401, q)] (Fulfilled (Data a t)) [])))
    \<and> (idle m2 \<longrightarrow>
         origins (snd (step m2
             (ResponseError (Some 401) (q\<lparr>Authorization := Some (bearer (default_token a))\<rparr>)))) = []
         \<and> isRefreshing (client (fst (step m2
             (ResponseError (Some 401) (q\<lparr>Authorization := Some (bearer (default_token a))\<rparr>)))))
         \<and> refresher (fst (step m2
             (ResponseError (Some 401) (q\<lparr>Authorization := Some (bearer (default_token a))\<rparr>))))
             = Some (if truthy (getRefreshToken (client m2))
                     then AwaitPost
                            (q\<lparr>Authorization := Some (bearer (default_token a)), retry := True\<rparr>)
                     else AwaitRefresh
                            (q\<lparr>Authorization := Some (bearer (default_token a)), retry := True\<rparr>)
                            (Inl (Error ''No refresh token available.''))))
    \<and> (isRefreshing (client m2) \<longrightarrow>
         step m2 (ResponseError (Some 401) (q\<lparr>Authorization := Some (bearer (default_token a))\<rparr>))
           = (m2\<lparr>client := (client m2)\<lparr>failedQueue := failedQueue (client m2)
                  @ [q\<lparr>Authorization := Some (bearer (default_token a))\<rparr>]\<rparr>\<rparr>, []))
    \<and> step m2 (ResponseError (Some 401) (r0\<lparr>retry := True, Authorization := Some (bearer a)\<rparr>))
         = (m2, [Origin (r0\<lparr>retry := True, Authorization := Some (bearer a)\<rparr>)
                   (Rejects (AxiosError (Some 401)
                      (r0\<lparr>retry := True, Authorization := Some (bearer a)\<rparr>)))])"
proof -
  let ?q = "q\<lparr>Authorization := Some (bearer (default_token a))\<rparr>"
  let ?r = "r0\<lparr>retry := True, Authorization := Some (bearer a)\<rparr>"
  let ?p = "Fulfilled (Data a t)"
  have q: "recoverable ?q"
    using assms(3) by (simp add: recoverable_def)
  have e: "enters (Some 401, q)"
    using assms(3) by (simp add: enters_def)
  have h: "snd (handleTokenRefresh (client m) ?p) = Inr a"
    using refresh_succeeds [OF assms(4)] by simp
  have w: "waiters (snd (run m (cycle r0 [(Some 401, q)] ?p [])))
         = map (\<lambda>x. (x, Replays (x\<lparr>Authorization := Some (bearer (default_token a))\<rparr>)))
             (failedQueue (client m) @ [q])"
    using assms(1,2)
    by (simp add: cycle_waiters h e settle_def drained_with_def del: run.simps step.simps)
  have o: "origins (snd (run m (cycle r0 [(Some 401, q)] ?p []))) = [(r0\<lparr>retry := True\<rparr>, Replays ?r)]"
    using assms(1,2) by (simp add: cycle_origins h e settle_def del: run.simps step.simps)
  have f: "\<not> retry ?q" "retry ?r"
    using assms(3) by (simp_all add: recoverable_def)
  have i: "idle (fst (run m (cycle r0 [(Some 401, q)] ?p [])))"
    using assms(1,2) by (rule cycle_idle)
  have n: "idle m2 \<longrightarrow>
         origins (snd (step m2 (ResponseError (Some 401) ?q))) = []
         \<and> isRefreshing (client (fst (step m2 (ResponseError (Some 401) ?q))))
         \<and> refresher (fst (step m2 (ResponseError (Some 401) ?q)))
             = Some (if truthy (getRefreshToken (client m2))
                     then AwaitPost
                            (q\<lparr>Authorization := Some (bearer (default_token a)), retry := True\<rparr>)
                     else AwaitRefresh
                            (q\<lparr>Authorization := Some (bearer (default_token a)), retry := True\<rparr>)
                            (Inl (Error ''No refresh token available.'')))"
  proof
    assume "idle m2"
    from first_401 [OF this q] show "origins (snd (step m2 (ResponseError (Some 401) ?q))) = []
         \<and> isRefreshing (client (fst (step m2 (ResponseError (Some 401) ?q))))
         \<and> refresher (fst (step m2 (ResponseError (Some 401) ?q)))
             = Some (if truthy (getRefreshToken (client m2))
                     then AwaitPost
                            (q\<lparr>Authorization := Some (bearer (default_token a)), retry := True\<rparr>)
                     else AwaitRefresh
                            (q\<lparr>Authorization := Some (bearer (default_token a)), retry := True\<rparr>)
                            (Inl (Error ''No refresh token available.'')))"
      by (simp del: step.simps)
  qed
  have b: "isRefreshing (client m2) \<longrightarrow>
         step m2 (ResponseError (Some 401) ?q)
           = (m2\<lparr>client := (client m2)\<lparr>failedQueue := failedQueue (client m2) @ [?q]\<rparr>\<rparr>, [])"
    using step_arrival_refreshing [of m2 "(Some 401, ?q)"] q
    by (simp add: arrival_def enters_def del: step.simps)
  have p: "step m2 (ResponseError (Some 401) ?r) = (m2, [Origin ?r (Rejects (AxiosError (Some 401) ?r))])"
    by (rule retried_401_passes) simp
  from w o f i n b p show ?thesis
    by blast
qed

theorem queued_replay_reenters_witness:
  "idle \<lparr>client = signed_in_client, refresher = None\<rparr>
   \<and> recoverable items_request \<and> recoverable users_request
   \<and> truthy (getRefreshToken signed_in_client)
   \<and> isRefreshing (client \<lparr>client = signed_in_client\<lparr>isRefreshing := True\<rparr>,
         refresher = Some (AwaitPost (items_request\<lparr>retry := True\<rparr>))\<rparr>)
   \<and> waiters (snd (run \<lparr>client = signed_in_client, refresher = None\<rparr>
        (cycle items_request [(Some 401, users_request)]
           (Fulfilled (Data (JStr ''A2'') JUndefined)) [])))
       = [(users_request, Replays (users_request\<lparr>Authorization := Some ''Bearer A2''\<rparr>))]
   \<and> refresher (fst (step \<lparr>client = signed_in_client, refresher = None\<rparr>
        (ResponseError (Some 401) (users_request\<lparr>Authorization := Some ''Bearer A2''\<rparr>))))
       = Some (AwaitPost (users_request\<lparr>Authorization := Some ''Bearer A2'', retry := True\<rparr>))
   \<and> failedQueue (client (fst (step \<lparr>client = signed_in_client\<lparr>isRefreshing := True\<rparr>,
         refresher = Some (AwaitPost (items_request\<lparr>retry := True\<rparr>))\<rparr>
        (ResponseError (Some 401) (users_request\<lparr>Authorization := Some ''Bearer A2''\<rparr>)))))
       = [users_request\<lparr>Authorization := Some ''Bearer A2''\<rparr>]
   \<and> snd (step \<lparr>client = signed_in_client, refresher = None\<rparr>
        (ResponseError (Some 401)
           (items_request\<lparr>retry := True, Authorization := Some ''Bearer A2''\<rparr>)))
       = [Origin (items_request\<lparr>retry := True, Authorization := Some ''Bearer A2''\<rparr>)
            (Rejects (AxiosError (Some 401)
               (items_request\<lparr>retry := True, Authorization := Some ''Bearer A2''\<rparr>)))]"
proof -
  let ?m = "\<lparr>client = signed_in_client, refresher = None\<rparr>"
  let ?b = "\<lparr>client = signed_in_client\<lparr>isRefreshing := True\<rparr>,
         refresher = Some (AwaitPost (items_request\<lparr>retry := True\<rparr>))\<rparr>"
  have t: "truthy (getRefreshToken (client ?m))"
    by (simp add: signed_in_facts)
  show ?thesis
    using queued_replay_reenters [OF signed_in_facts(1,2,3) t,
        where a = "JStr ''A2''" and t = JUndefined and ?m2.0 = ?m]
      queued_replay_reenters [OF signed_in_facts(1,2,3) t,
        where a = "JStr ''A2''" and t = JUndefined and ?m2.0 = ?b]
    by (simp add: signed_in_facts bearer_def default_token_def del: run.simps step.simps)
qed

end
